theory Spec2Isabelle
  imports Main
begin

section \<open>Shared vocabulary of the two scripts\<close>

text \<open>
  Both scripts are straight-line glue over the warehouse client library. The remote
  service and the local file system are the only things they touch, so the model passes
  an explicit world around and returns, next to it, either the exception that ended the
  run (\<open>Inl\<close>) or the value produced (\<open>Inr\<close>).

  \<open>SystemExit msg\<close> is the exception both scripts raise themselves; \<open>ApiError msg\<close>
  stands for whatever the client library raises (not found, forbidden, unavailable ...).
  Neither script has a handler that tells library exceptions apart.
\<close>

datatype exn = SystemExit string | ApiError string

text \<open>
  The status the interpreter exits with: 0 after a normal end; 1 when \<open>SystemExit\<close>
  carries a string (which is printed) and 1 as well after any other uncaught exception.
\<close>

fun exit_status :: "exn + 'a \<Rightarrow> nat" where
  "exit_status (Inr _) = 0"
| "exit_status (Inl (SystemExit msg)) = 1"
| "exit_status (Inl (ApiError msg)) = 1"

definition PROJECT_ID :: string where
  "PROJECT_ID = ''saras-bigquery''"

text \<open>Decimal rendering of a non-negative integer, as an f-string prints it.\<close>

definition digit_char :: "nat \<Rightarrow> char" where
  "digit_char d = ''0123456789'' ! d"

function str_nat :: "nat \<Rightarrow> string" where
  "str_nat n = (if n < 10 then [digit_char n] else str_nat (n div 10) @ [digit_char (n mod 10)])"
  by pat_completeness auto
termination
  by (relation "measure id") auto

section \<open>The standard CSV writer (default dialect)\<close>

text \<open>
  \<open>export_bq_tables.py\<close> writes through \<open>csv.writer(f)\<close> with no dialect arguments:
  delimiter comma, quote character double quote, minimal quoting with doubled quotes, line
  terminator CR LF. A value handed to \<open>writerow\<close> is \<open>None\<close> (written as nothing), a
  string (written as it is) or any other object (written as its \<open>str()\<close>); \<open>PyObj s\<close>
  is such an object whose \<open>str()\<close> is \<open>s\<close>.
\<close>

datatype cell = PyNone | PyStr string | PyObj string

definition delimiter :: char where
  "delimiter = CHR '',''"

definition quotechar :: char where
  "quotechar = CHR 0x22"

definition lineterminator :: string where
  "lineterminator = [CHR 0x0D, CHR 0x0A]"

fun field_data :: "cell \<Rightarrow> string" where
  "field_data PyNone = []"
| "field_data (PyStr s) = s"
| "field_data (PyObj s) = s"

text \<open>A field is quoted when it holds the delimiter, the quote character, CR or LF.\<close>

definition special :: "char \<Rightarrow> bool" where
  "special c = (c = delimiter \<or> c = quotechar \<or> c = CHR 0x0D \<or> c = CHR 0x0A)"

definition must_quote :: "string \<Rightarrow> bool" where
  "must_quote s = list_ex special s"

definition double_quotes :: "string \<Rightarrow> string" where
  "double_quotes s = concat (map (\<lambda>c. if c = quotechar then [quotechar, c] else [c]) s)"

definition field_text :: "cell \<Rightarrow> string" where
  "field_text v =
     (let s = field_data v
      in if must_quote s then [quotechar] @ double_quotes s @ [quotechar] else s)"

fun join_fields :: "cell list \<Rightarrow> string" where
  "join_fields [] = []"
| "join_fields [v] = field_text v"
| "join_fields (v # vs) = field_text v @ [delimiter] @ join_fields vs"

text \<open>
  A record that has fields but came out empty (one single empty field) is written as a
  pair of quotes, so that it differs from a record without fields.
\<close>

definition writerow :: "cell list \<Rightarrow> string" where
  "writerow vs =
     (let rec = join_fields vs
      in (if vs \<noteq> [] \<and> rec = [] then [quotechar, quotechar] else rec) @ lineterminator)"

section \<open>The Exporter: \<open>scripts/export_bq_tables.py\<close>\<close>

subsection \<open>The remote service as the Exporter sees it\<close>

datatype table_reference =
  TableReference (ref_project: string) (ref_dataset_id: string) (ref_table_id: string)

datatype dataset_reference =
  DatasetReference (ds_project: string) (ds_dataset_id: string)

text \<open>An entry of the table listing: \<open>t.reference\<close>, and \<open>t.table_id\<close> read off it.\<close>

datatype table_list_item = TableListItem (reference: table_reference)

definition item_table_id :: "table_list_item \<Rightarrow> string" where
  "item_table_id t = ref_table_id (reference t)"

text \<open>Table metadata: the table's name and its schema, of which only the names are used.\<close>

datatype schema_field = SchemaField (name: string)

record table =
  table_id :: string
  schema :: "schema_field list"

text \<open>
  A row answers \<open>row.get(name)\<close>: the value of that column, or \<open>None\<close> when the row has
  no such column.
\<close>

type_synonym row = "string \<rightharpoonup> cell"

definition row_get :: "row \<Rightarrow> string \<Rightarrow> cell" where
  "row_get r k = (case r k of None \<Rightarrow> PyNone | Some v \<Rightarrow> v)"

text \<open>
  \<open>list_rows\<close> hands back a lazy, finite, forward-only iterator. Pulling the next row
  either ends the iteration, yields a row, or raises (a page could not be fetched).
\<close>

datatype row_iterator = Done | Yield row row_iterator | Raise exn

record client =
  list_tables :: "dataset_reference \<Rightarrow> exn + table_list_item list"
  get_table :: "table_reference \<Rightarrow> exn + table"
  list_rows :: "table \<Rightarrow> exn + row_iterator"

subsection \<open>The local file system and standard output\<close>

text \<open>
  Paths are strings; \<open>root\<close> is the absolute path of the directory above \<open>scripts/\<close>,
  which is where \<open>Path(__file__).resolve().parent.parent\<close> points. Local directory
  creation and file writes are taken to succeed.
\<close>

record world =
  dirs :: "string set"
  files :: "string \<rightharpoonup> string"
  stdout :: "string list"

definition DATASET_ID_marts :: string where
  "DATASET_ID_marts = ''dbt_training_marts''"

definition OUTPUT_DIR :: "string \<Rightarrow> string" where
  "OUTPUT_DIR root = root @ ''/exports/'' @ DATASET_ID_marts"

text \<open>\<open>OUTPUT_DIR.mkdir(parents=True, exist_ok=True)\<close>\<close>

definition mkdir_parents :: "string \<Rightarrow> world \<Rightarrow> world" where
  "mkdir_parents root w = w\<lparr>dirs := dirs w \<union> {root @ ''/exports'', OUTPUT_DIR root}\<rparr>"

text \<open>Opening with mode \<open>"w"\<close> creates the file or empties it.\<close>

definition open_w :: "string \<Rightarrow> world \<Rightarrow> world" where
  "open_w p w = w\<lparr>files := (files w)(p \<mapsto> [])\<rparr>"

definition file_write :: "string \<Rightarrow> string \<Rightarrow> world \<Rightarrow> world" where
  "file_write p s w =
     w\<lparr>files := (files w)(p \<mapsto> (case files w p of None \<Rightarrow> s | Some old \<Rightarrow> old @ s))\<rparr>"

definition print :: "string \<Rightarrow> world \<Rightarrow> world" where
  "print s w = w\<lparr>stdout := stdout w @ [s]\<rparr>"

subsection \<open>\<open>export_table\<close>\<close>

text \<open>
  The loop of lines 29-30. It stops at the end of the iterator or at the first exception
  the iterator raises; what was written until then stays written.
\<close>

fun write_rows :: "string \<Rightarrow> string list \<Rightarrow> row_iterator \<Rightarrow> world \<Rightarrow> exn option \<times> world" where
  "write_rows p names Done w = (None, w)"
| "write_rows p names (Raise e) w = (Some e, w)"
| "write_rows p names (Yield r rest) w =
     write_rows p names rest (file_write p (writerow (map (row_get r) names)) w)"

text \<open>
  What an iterator delivers when it is run to its end: the rows it yields, in order, and
  the exception that cuts it short, if any.
\<close>

fun rows_of :: "row_iterator \<Rightarrow> row list" where
  "rows_of Done = []"
| "rows_of (Raise e) = []"
| "rows_of (Yield r rest) = r # rows_of rest"

fun failure_of :: "row_iterator \<Rightarrow> exn option" where
  "failure_of Done = None"
| "failure_of (Raise e) = Some e"
| "failure_of (Yield r rest) = failure_of rest"

text \<open>Line 21: \<open>OUTPUT_DIR / f"{table.table_id}.csv"\<close>\<close>

definition output_path :: "string \<Rightarrow> table \<Rightarrow> string" where
  "output_path root tbl = OUTPUT_DIR root @ ''/'' @ table_id tbl @ ''.csv''"

text \<open>Line 22: the column names, in the order of the schema.\<close>

definition fieldnames :: "table \<Rightarrow> string list" where
  "fieldnames tbl = map name (schema tbl)"

definition export_table ::
  "string \<Rightarrow> client \<Rightarrow> table_reference \<Rightarrow> world \<Rightarrow> (exn + string) \<times> world" where
  "export_table root c table_ref w =
     (case get_table c table_ref of
        Inl e \<Rightarrow> (Inl e, w)
      | Inr tbl \<Rightarrow>
          (let w1 = mkdir_parents root w;
               p = output_path root tbl;
               w2 = open_w p w1;
               w3 = file_write p (writerow (map PyStr (fieldnames tbl))) w2
           in case list_rows c tbl of
                Inl e \<Rightarrow> (Inl e, w3)
              | Inr rows \<Rightarrow>
                  (case write_rows p (fieldnames tbl) rows w3 of
                     (Some e, w4) \<Rightarrow> (Inl e, w4)
                   | (None, w4) \<Rightarrow> (Inr p, w4))))"

subsection \<open>\<open>main\<close>\<close>

text \<open>The loop of lines 44-46: the first table whose export raises ends the run.\<close>

fun export_loop ::
  "string \<Rightarrow> client \<Rightarrow> table_list_item list \<Rightarrow> world \<Rightarrow> (exn + unit) \<times> world" where
  "export_loop root c [] w = (Inr (), w)"
| "export_loop root c (t # ts) w =
     (case export_table root c (reference t) w of
        (Inl e, w') \<Rightarrow> (Inl e, w')
      | (Inr path, w') \<Rightarrow>
          export_loop root c ts (print (''Exported '' @ item_table_id t @ '' -> '' @ path) w'))"

text \<open>
  \<open>Client\<close> is the constructor \<open>bigquery.Client(project=...)\<close>: it gives a client or
  raises (no credentials).
\<close>

definition main :: "string \<Rightarrow> (string \<Rightarrow> exn + client) \<Rightarrow> world \<Rightarrow> (exn + unit) \<times> world" where
  "main root Client w =
     (case Client PROJECT_ID of
        Inl e \<Rightarrow> (Inl e, w)
      | Inr c \<Rightarrow>
          (case list_tables c (DatasetReference PROJECT_ID DATASET_ID_marts) of
             Inl e \<Rightarrow> (Inl e, w)
           | Inr tables \<Rightarrow>
               if tables = []
               then (Inl (SystemExit (''No tables found in '' @ PROJECT_ID @ ''.'' @ DATASET_ID_marts)), w)
               else export_loop root c tables
                      (print (''Found '' @ str_nat (length tables) @ '' tables in ''
                               @ PROJECT_ID @ ''.'' @ DATASET_ID_marts @ ''.'') w)))"

section \<open>The Loader: \<open>scripts/load_jsonl_to_bq.py\<close>\<close>

subsection \<open>Constants and the load-job configuration\<close>

definition DATASET_ID_raw :: string where
  "DATASET_ID_raw = ''raw_shopify''"

definition TABLE_ID :: string where
  "TABLE_ID = ''orders''"

text \<open>Lines 7-9: the absolute path of the source file, below the same \<open>root\<close>.\<close>

definition FILE_PATH :: "string \<Rightarrow> string" where
  "FILE_PATH root = root @ ''/RAW_DATASETS/bquxjob_12dd921d_19c2829b22b_yourgpt.jsonl''"

datatype source_format = CSV | NEWLINE_DELIMITED_JSON | AVRO | PARQUET

datatype write_disposition = WRITE_APPEND | WRITE_TRUNCATE | WRITE_EMPTY

record load_job_config =
  source_format :: source_format
  autodetect :: bool
  write_disposition :: write_disposition

subsection \<open>The remote service as the Loader sees it\<close>

text \<open>
  Every call into the client library is logged as a request, in order. The service holds
  the set of datasets that exist. Each kind of call can be made to fail for a reason of
  its own (credentials, permission, outage ...) by the corresponding \<open>..._fault\<close>; the
  finished job reports \<open>job_output_rows\<close>.
\<close>

datatype request =
    NewClient string
  | GetDataset dataset_reference
  | CreateDataset dataset_reference string bool
  | LoadTableFromFile string string load_job_config
  | JobResult

record service =
  local_files :: "string set"
  datasets :: "dataset_reference set"
  requests :: "request list"
  printed :: "string list"
  client_fault :: "exn option"
  get_dataset_fault :: "exn option"
  create_dataset_fault :: "exn option"
  load_fault :: "exn option"
  job_fault :: "exn option"
  job_output_rows :: "nat option"

definition send :: "request \<Rightarrow> service \<Rightarrow> service" where
  "send r s = s\<lparr>requests := requests s @ [r]\<rparr>"

definition say :: "string \<Rightarrow> service \<Rightarrow> service" where
  "say line s = s\<lparr>printed := printed s @ [line]\<rparr>"

definition new_client :: "string \<Rightarrow> service \<Rightarrow> exn option \<times> service" where
  "new_client project s = (client_fault s, send (NewClient project) s)"

text \<open>Fetching the metadata of a dataset that does not exist raises "not found".\<close>

definition get_dataset :: "dataset_reference \<Rightarrow> service \<Rightarrow> exn option \<times> service" where
  "get_dataset d s =
     (case get_dataset_fault s of
        Some e \<Rightarrow> Some e
      | None \<Rightarrow> if d \<in> datasets s then None else Some (ApiError ''404 Not found''),
      send (GetDataset d) s)"

text \<open>
  Creating a dataset that exists raises "already exists". With \<open>exists_ok\<close> the library
  swallows that and fetches the existing dataset instead, which can fail as any fetch can.
\<close>

definition create_dataset ::
  "dataset_reference \<Rightarrow> string \<Rightarrow> bool \<Rightarrow> service \<Rightarrow> exn option \<times> service" where
  "create_dataset d location exists_ok s =
     (let s' = send (CreateDataset d location exists_ok) s
      in case create_dataset_fault s of
           Some e \<Rightarrow> (Some e, s')
         | None \<Rightarrow>
             if d \<in> datasets s
             then (if exists_ok then get_dataset_fault s else Some (ApiError ''409 Already exists''), s')
             else (None, s'\<lparr>datasets := insert d (datasets s')\<rparr>))"

definition load_table_from_file ::
  "string \<Rightarrow> string \<Rightarrow> load_job_config \<Rightarrow> service \<Rightarrow> exn option \<times> service" where
  "load_table_from_file path dest cfg s = (load_fault s, send (LoadTableFromFile path dest cfg) s)"

text \<open>\<open>job.result()\<close> returns once the job is done, or raises the job's error.\<close>

definition job_result :: "service \<Rightarrow> exn option \<times> service" where
  "job_result s = (job_fault s, send JobResult s)"

text \<open>How an f-string prints \<open>job.output_rows\<close>, an integer or \<open>None\<close>.\<close>

fun str_rows :: "nat option \<Rightarrow> string" where
  "str_rows None = ''None''"
| "str_rows (Some n) = str_nat n"

subsection \<open>The script\<close>

text \<open>
  Lines 17-26. \<open>except Exception\<close> catches whatever the library raises, for whatever
  reason; \<open>SystemExit\<close> is not an \<open>Exception\<close> and would pass through.
\<close>

definition ensure_dataset :: "service \<Rightarrow> exn option \<times> service" where
  "ensure_dataset s =
     (let dataset_ref = DatasetReference PROJECT_ID DATASET_ID_raw
      in case get_dataset dataset_ref s of
           (None, s1) \<Rightarrow> (None, say (''Dataset '' @ DATASET_ID_raw @ '' already exists.'') s1)
         | (Some (SystemExit m), s1) \<Rightarrow> (Some (SystemExit m), s1)
         | (Some (ApiError m), s1) \<Rightarrow>
             (let s2 = say (''Creating dataset '' @ DATASET_ID_raw @ '' in project ''
                              @ PROJECT_ID @ ''...'') s1
              in case create_dataset dataset_ref ''US'' True s2 of
                   (Some e, s3) \<Rightarrow> (Some e, s3)
                 | (None, s3) \<Rightarrow> (None, say ''Dataset created.'' s3)))"

text \<open>Lines 29-41.\<close>

definition load_file :: "string \<Rightarrow> service \<Rightarrow> exn option \<times> service" where
  "load_file root s =
     (let table_ref = PROJECT_ID @ ''.'' @ DATASET_ID_raw @ ''.'' @ TABLE_ID;
          job_config = \<lparr>source_format = NEWLINE_DELIMITED_JSON, autodetect = True,
                        write_disposition = WRITE_TRUNCATE\<rparr>;
          s1 = say (''Loading '' @ FILE_PATH root @ '' into '' @ table_ref @ '' ...'') s
      in case load_table_from_file (FILE_PATH root) table_ref job_config s1 of
           (Some e, s2) \<Rightarrow> (Some e, s2)
         | (None, s2) \<Rightarrow>
             (case job_result s2 of
                (Some e, s3) \<Rightarrow> (Some e, s3)
              | (None, s3) \<Rightarrow>
                  (None, say (''Loaded '' @ str_rows (job_output_rows s3) @ '' rows into ''
                               @ table_ref @ ''.'') s3)))"

text \<open>The whole script, top to bottom.\<close>

definition loader :: "string \<Rightarrow> service \<Rightarrow> (exn + unit) \<times> service" where
  "loader root s =
     (if FILE_PATH root \<notin> local_files s
      then (Inl (SystemExit (''File not found: '' @ FILE_PATH root)), s)
      else case new_client PROJECT_ID s of
             (Some e, s1) \<Rightarrow> (Inl e, s1)
           | (None, s1) \<Rightarrow>
               (case ensure_dataset s1 of
                  (Some e, s2) \<Rightarrow> (Inl e, s2)
                | (None, s2) \<Rightarrow>
                    (case load_file root s2 of
                       (Some e, s3) \<Rightarrow> (Inl e, s3)
                     | (None, s3) \<Rightarrow> (Inr (), s3))))"

text \<open>The requests a run of the script makes, and the lines it prints.\<close>

definition issued :: "string \<Rightarrow> service \<Rightarrow> request list" where
  "issued root s = drop (length (requests s)) (requests (snd (loader root s)))"

definition reported :: "string \<Rightarrow> service \<Rightarrow> string list" where
  "reported root s = drop (length (printed s)) (printed (snd (loader root s)))"

fun is_load :: "request \<Rightarrow> bool" where
  "is_load (LoadTableFromFile path dest cfg) = True"
| "is_load r = False"

section \<open>A concrete dataset to run the model on\<close>

text \<open>
  Three tables. \<open>customers\<close> has one column and one row. \<open>orders\<close> has the columns
  \<open>id\<close> and \<open>note\<close>; its first row carries a value with a comma and a field that is
  not in the schema, its second row has no \<open>note\<close>. \<open>products\<close> has no rows.
\<close>

definition customers_ref :: table_reference where
  "customers_ref = TableReference PROJECT_ID DATASET_ID_marts ''customers''"

definition orders_ref :: table_reference where
  "orders_ref = TableReference PROJECT_ID DATASET_ID_marts ''orders''"

definition products_ref :: table_reference where
  "products_ref = TableReference PROJECT_ID DATASET_ID_marts ''products''"

definition customers_table :: table where
  "customers_table = \<lparr>table_id = ''customers'', schema = [SchemaField ''email'']\<rparr>"

definition orders_table :: table where
  "orders_table = \<lparr>table_id = ''orders'', schema = [SchemaField ''id'', SchemaField ''note'']\<rparr>"

definition products_table :: table where
  "products_table = \<lparr>table_id = ''products'', schema = [SchemaField ''sku'']\<rparr>"

definition customer_row :: row where
  "customer_row = [''email'' \<mapsto> PyStr ''a@b.c'']"

definition order_row1 :: row where
  "order_row1 = [''id'' \<mapsto> PyObj ''1'', ''note'' \<mapsto> PyStr ''a,b'', ''extra'' \<mapsto> PyStr ''x'']"

definition order_row2 :: row where
  "order_row2 = [''id'' \<mapsto> PyObj ''2'']"

text \<open>
  The service, with the rows of \<open>orders\<close> left open: \<open>good_rows\<close> when all goes well,
  \<open>broken_rows\<close> when the connection is lost after the first row.
\<close>

definition rows_for :: "row_iterator \<Rightarrow> table \<Rightarrow> exn + row_iterator" where
  "rows_for orders_rows tbl =
     (if table_id tbl = ''customers'' then Inr (Yield customer_row Done)
      else if table_id tbl = ''products'' then Inr Done
      else Inr orders_rows)"

definition demo_client :: "row_iterator \<Rightarrow> client" where
  "demo_client orders_rows =
     \<lparr>list_tables = (\<lambda>d. Inr [TableListItem customers_ref, TableListItem orders_ref,
                               TableListItem products_ref]),
      get_table = (\<lambda>r. if r = customers_ref then Inr customers_table
                        else if r = orders_ref then Inr orders_table
                        else if r = products_ref then Inr products_table
                        else Inl (ApiError ''404 Not found'')),
      list_rows = rows_for orders_rows\<rparr>"

definition good_rows :: row_iterator where
  "good_rows = Yield order_row1 (Yield order_row2 Done)"

definition broken_rows :: row_iterator where
  "broken_rows = Yield order_row1 (Raise (ApiError ''503 Service unavailable''))"

text \<open>A dataset without tables.\<close>

definition bare_client :: client where
  "bare_client =
     \<lparr>list_tables = (\<lambda>d. Inr []),
      get_table = (\<lambda>r. Inl (ApiError ''404 Not found'')),
      list_rows = (\<lambda>t. Inl (ApiError ''404 Not found''))\<rparr>"

definition empty_world :: world where
  "empty_world = \<lparr>dirs = {}, files = Map.empty, stdout = []\<rparr>"

text \<open>
  For the Loader: a service without the dataset and without faults, the same with the
  source file missing, a service that has the dataset but cannot answer a fetch, and a
  service whose load job fails.
\<close>

definition fresh_service :: service where
  "fresh_service =
     \<lparr>local_files = {FILE_PATH ''/repo''}, datasets = {}, requests = [], printed = [],
      client_fault = None, get_dataset_fault = None, create_dataset_fault = None,
      load_fault = None, job_fault = None, job_output_rows = Some 42\<rparr>"

definition no_file_service :: service where
  "no_file_service = fresh_service\<lparr>local_files := {}\<rparr>"

definition outage_service :: service where
  "outage_service =
     fresh_service\<lparr>datasets := {DatasetReference PROJECT_ID DATASET_ID_raw},
                   get_dataset_fault := Some (ApiError ''503 Service unavailable'')\<rparr>"


definition bad_job_service :: service where
  "bad_job_service = fresh_service\<lparr>job_fault := Some (ApiError ''400 Error while reading data'')\<rparr>"

section \<open>Facts about the CSV writer\<close>




section \<open>Facts about \<open>export_table\<close>\<close>

lemma file_write_Some:
  "files w p = Some old \<Longrightarrow> file_write p s w = w\<lparr>files := (files w)(p \<mapsto> old @ s)\<rparr>"
  by (simp add: file_write_def)

text \<open>
  The loop appends one record per yielded row, in the order of the iterator, and reports
  the iterator's failure, if any.
\<close>

lemma write_rows_eq:
  "files w p = Some old \<Longrightarrow>
   write_rows p names it w =
     (failure_of it,
      w\<lparr>files := (files w)(p \<mapsto> old @ concat (map (\<lambda>r. writerow (map (row_get r) names)) (rows_of it)))\<rparr>)"
proof (induction it arbitrary: w old)
  case Done
  then show ?case by (simp add: map_upd_triv)
next
  case (Yield r rest)
  let ?s = "writerow (map (row_get r) names)"
  have w: "file_write p ?s w = w\<lparr>files := (files w)(p \<mapsto> old @ ?s)\<rparr>"
    using Yield.prems by (rule file_write_Some)
  have "files (file_write p ?s w) p = Some (old @ ?s)"
    by (simp add: w)
  from Yield.IH [OF this] show ?case
    by (simp add: w cong: if_cong)
next
  case (Raise e)
  then show ?case by (simp add: map_upd_triv)
qed

lemma export_table_get_fails:
  "get_table c table_ref = Inl e \<Longrightarrow> export_table root c table_ref w = (Inl e, w)"
  by (simp add: export_table_def)

lemma export_table_list_fails:
  "get_table c table_ref = Inr tbl \<Longrightarrow> list_rows c tbl = Inl e \<Longrightarrow>
   export_table root c table_ref w =
     (Inl e, w\<lparr>dirs := dirs w \<union> {root @ ''/exports'', OUTPUT_DIR root},
               files := (files w)(output_path root tbl \<mapsto> writerow (map PyStr (fieldnames tbl)))\<rparr>)"
  by (simp add: export_table_def Let_def mkdir_parents_def open_w_def file_write_def)

lemma export_table_rows:
  assumes "get_table c table_ref = Inr tbl" and "list_rows c tbl = Inr it"
  shows "export_table root c table_ref w =
     (case failure_of it of Some e \<Rightarrow> Inl e | None \<Rightarrow> Inr (output_path root tbl),
      w\<lparr>dirs := dirs w \<union> {root @ ''/exports'', OUTPUT_DIR root},
        files := (files w)(output_path root tbl \<mapsto>
                   writerow (map PyStr (fieldnames tbl))
                   @ concat (map (\<lambda>r. writerow (map (row_get r) (fieldnames tbl))) (rows_of it)))\<rparr>)"
proof -
  let ?p = "output_path root tbl"
  let ?fn = "fieldnames tbl"
  let ?h = "writerow (map PyStr ?fn)"
  let ?body = "concat (map (\<lambda>r. writerow (map (row_get r) ?fn)) (rows_of it))"
  let ?w3 = "file_write ?p ?h (open_w ?p (mkdir_parents root w))"
  have w3: "?w3 = w\<lparr>dirs := dirs w \<union> {root @ ''/exports'', OUTPUT_DIR root},
        files := (files w)(?p \<mapsto> ?h)\<rparr>"
    by (simp add: file_write_def open_w_def mkdir_parents_def)
  have f: "files ?w3 ?p = Some ?h"
    by (simp add: file_write_def open_w_def)
  have unfold: "export_table root c table_ref w =
      (case write_rows ?p ?fn it ?w3 of
         (Some e, w4) \<Rightarrow> (Inl e, w4)
       | (None, w4) \<Rightarrow> (Inr ?p, w4))"
    using assms by (simp add: export_table_def Let_def)
  have loop: "write_rows ?p ?fn it ?w3 =
      (failure_of it, ?w3\<lparr>files := (files ?w3)(?p \<mapsto> ?h @ ?body)\<rparr>)"
    by (rule write_rows_eq [OF f])
  have final: "?w3\<lparr>files := (files ?w3)(?p \<mapsto> ?h @ ?body)\<rparr>
      = w\<lparr>dirs := dirs w \<union> {root @ ''/exports'', OUTPUT_DIR root},
          files := (files w)(?p \<mapsto> ?h @ ?body)\<rparr>"
    by (subst (1 2) w3) simp
  show ?thesis
    unfolding unfold loop final by (cases "failure_of it") simp_all
qed

section \<open>Running the model on the concrete dataset\<close>

lemmas demo_defs = demo_client_def rows_for_def customers_ref_def orders_ref_def products_ref_def
  customers_table_def orders_table_def products_table_def customer_row_def order_row1_def
  order_row2_def good_rows_def broken_rows_def empty_world_def bare_client_def

lemmas csv_defs = writerow_def field_text_def must_quote_def special_def double_quotes_def
  delimiter_def quotechar_def lineterminator_def row_get_def fieldnames_def

lemmas fs_defs = mkdir_parents_def open_w_def file_write_def print_def output_path_def
  OUTPUT_DIR_def item_table_id_def PROJECT_ID_def DATASET_ID_marts_def

lemma demo_get_orders: "get_table (demo_client rs) orders_ref = Inr orders_table"
  by (simp add: demo_client_def orders_ref_def customers_ref_def)

lemma demo_list_orders: "list_rows (demo_client rs) orders_table = Inr rs"
  by (simp add: demo_client_def rows_for_def orders_table_def)

lemma demo_get_customers: "get_table (demo_client rs) customers_ref = Inr customers_table"
  by (simp add: demo_client_def)

lemma demo_list_customers: "list_rows (demo_client rs) customers_table = Inr (Yield customer_row Done)"
  by (simp add: demo_client_def rows_for_def customers_table_def)

text \<open>A complete run, and a run that loses the connection in the middle of \<open>orders\<close>.\<close>

lemma demo_run_good:
  "main ''/repo'' (\<lambda>p. Inr (demo_client good_rows)) empty_world =
     (Inr (),
      \<lparr>dirs = {''/repo/exports'', ''/repo/exports/dbt_training_marts''},
       files = [''/repo/exports/dbt_training_marts/customers.csv'' \<mapsto>
                  ''email'' @ lineterminator @ ''a@b.c'' @ lineterminator,
                ''/repo/exports/dbt_training_marts/orders.csv'' \<mapsto>
                  ''id,note'' @ lineterminator
                  @ ''1,'' @ [quotechar] @ ''a,b'' @ [quotechar] @ lineterminator
                  @ ''2,'' @ lineterminator,
                ''/repo/exports/dbt_training_marts/products.csv'' \<mapsto>
                  ''sku'' @ lineterminator],
       stdout = [''Found 3 tables in saras-bigquery.dbt_training_marts.'',
                 ''Exported customers -> /repo/exports/dbt_training_marts/customers.csv'',
                 ''Exported orders -> /repo/exports/dbt_training_marts/orders.csv'',
                 ''Exported products -> /repo/exports/dbt_training_marts/products.csv'']\<rparr>)"
  by (simp add: main_def export_table_def Let_def demo_defs csv_defs fs_defs digit_char_def insert_commute)

lemma demo_run_broken:
  "main ''/repo'' (\<lambda>p. Inr (demo_client broken_rows)) empty_world =
     (Inl (ApiError ''503 Service unavailable''),
      \<lparr>dirs = {''/repo/exports'', ''/repo/exports/dbt_training_marts''},
       files = [''/repo/exports/dbt_training_marts/customers.csv'' \<mapsto>
                  ''email'' @ lineterminator @ ''a@b.c'' @ lineterminator,
                ''/repo/exports/dbt_training_marts/orders.csv'' \<mapsto>
                  ''id,note'' @ lineterminator
                  @ ''1,'' @ [quotechar] @ ''a,b'' @ [quotechar] @ lineterminator],
       stdout = [''Found 3 tables in saras-bigquery.dbt_training_marts.'',
                 ''Exported customers -> /repo/exports/dbt_training_marts/customers.csv'']\<rparr>)"
  by (simp add: main_def export_table_def Let_def demo_defs csv_defs fs_defs digit_char_def insert_commute)

section \<open>What \<open>export_table\<close> writes\<close>







text \<open>
  Claim C9. When the row source of a table yields nothing, \<open>export_table\<close> returns the
  path of the table's file, and that file, whatever it held before, now holds the header
  record and nothing else.
\<close>

theorem export_empty_table:
  assumes "get_table c table_ref = Inr tbl" and "list_rows c tbl = Inr Done"
  shows "export_table root c table_ref w =
           (Inr (output_path root tbl),
            w\<lparr>dirs := dirs w \<union> {root @ ''/exports'', OUTPUT_DIR root},
              files := (files w)(output_path root tbl \<mapsto> writerow (map PyStr (fieldnames tbl)))\<rparr>)"
  by (simp add: export_table_rows [OF assms])

theorem export_empty_table_witness:
  "get_table (demo_client Done) orders_ref = Inr orders_table
   \<and> list_rows (demo_client Done) orders_table = Inr Done
   \<and> export_table ''/repo'' (demo_client Done) orders_ref empty_world =
           (Inr ''/repo/exports/dbt_training_marts/orders.csv'',
            \<lparr>dirs = {''/repo/exports'', ''/repo/exports/dbt_training_marts''},
             files = [''/repo/exports/dbt_training_marts/orders.csv'' \<mapsto> ''id,note'' @ [CHR 0x0D, CHR 0x0A]],
             stdout = []\<rparr>)"
proof -
  have g: "get_table (demo_client Done) orders_ref = Inr orders_table"
    by (rule demo_get_orders)
  have l: "list_rows (demo_client Done) orders_table = Inr Done"
    by (rule demo_list_orders)
  have "export_table ''/repo'' (demo_client Done) orders_ref empty_world =
           (Inr ''/repo/exports/dbt_training_marts/orders.csv'',
            \<lparr>dirs = {''/repo/exports'', ''/repo/exports/dbt_training_marts''},
             files = [''/repo/exports/dbt_training_marts/orders.csv'' \<mapsto> ''id,note'' @ [CHR 0x0D, CHR 0x0A]],
             stdout = []\<rparr>)"
    using export_empty_table [OF g l, where root = "''/repo''" and w = empty_world]
    by (simp add: empty_world_def output_path_def OUTPUT_DIR_def
        orders_table_def DATASET_ID_marts_def csv_defs insert_commute)
  with g l show ?thesis by simp
qed

section \<open>What a whole run of the Exporter does\<close>

text \<open>
  What a run writes, and how it ends, does not depend on the world it starts in: its
  files are those of the start, overridden by the files the same run writes into an empty
  world.
\<close>

lemma export_table_delta:
  "fst (export_table root c r w) = fst (export_table root c r empty_world)
   \<and> files (snd (export_table root c r w)) = files w ++ files (snd (export_table root c r empty_world))
   \<and> dirs (snd (export_table root c r w)) = dirs w \<union> dirs (snd (export_table root c r empty_world))"
proof (cases "get_table c r")
  case (Inl e)
  then show ?thesis by (simp add: export_table_get_fails empty_world_def)
next
  case get: (Inr tbl)
  show ?thesis
  proof (cases "list_rows c tbl")
    case (Inl e)
    show ?thesis by (simp add: export_table_list_fails [OF get Inl] empty_world_def)
  next
    case (Inr it)
    show ?thesis by (simp add: export_table_rows [OF get Inr] empty_world_def)
  qed
qed

lemma files_print [simp]: "files (print s w) = files w"
  by (simp add: print_def)

lemma dirs_print [simp]: "dirs (print s w) = dirs w"
  by (simp add: print_def)

lemma export_loop_delta:
  "fst (export_loop root c ts w) = fst (export_loop root c ts empty_world)
   \<and> files (snd (export_loop root c ts w)) = files w ++ files (snd (export_loop root c ts empty_world))"
proof (induction ts arbitrary: w)
  case Nil
  show ?case by (simp add: empty_world_def)
next
  case (Cons t ts)
  obtain r1 w1 where run: "export_table root c (reference t) w = (r1, w1)"
    by (cases "export_table root c (reference t) w")
  obtain r0 w0 where run0: "export_table root c (reference t) empty_world = (r0, w0)"
    by (cases "export_table root c (reference t) empty_world")
  from export_table_delta [of root c "reference t" w] run run0
  have r: "r1 = r0" and f: "files w1 = files w ++ files w0" by simp_all
  show ?case
  proof (cases r0)
    case (Inl e)
    with run run0 r f show ?thesis by simp
  next
    case (Inr path)
    let ?line = "''Exported '' @ item_table_id t @ '' -> '' @ path"
    have a: "export_loop root c (t # ts) w = export_loop root c ts (print ?line w1)"
      using run r Inr by simp
    have b: "export_loop root c (t # ts) empty_world = export_loop root c ts (print ?line w0)"
      using run0 Inr by simp
    have e0: "files empty_world = Map.empty" by (simp add: empty_world_def)
    show ?thesis
      unfolding a b
      using Cons.IH [of "print ?line w1"] Cons.IH [of "print ?line w0"] f
      by (simp add: map_add_assoc)
  qed
qed

lemma main_delta:
  "fst (main root Client w) = fst (main root Client empty_world)
   \<and> files (snd (main root Client w)) = files w ++ files (snd (main root Client empty_world))"
proof (cases "Client PROJECT_ID")
  case (Inl e)
  then show ?thesis by (simp add: main_def empty_world_def)
next
  case c: (Inr c)
  show ?thesis
  proof (cases "list_tables c (DatasetReference PROJECT_ID DATASET_ID_marts)")
    case (Inl e)
    with c show ?thesis by (simp add: main_def empty_world_def)
  next
    case (Inr tables)
    let ?line = "''Found '' @ str_nat (length tables) @ '' tables in ''
                   @ PROJECT_ID @ ''.'' @ DATASET_ID_marts @ ''.''"
    show ?thesis
    proof (cases "tables = []")
      case True
      with c Inr show ?thesis by (simp add: main_def empty_world_def)
    next
      case False
      have a: "main root Client w = export_loop root c tables (print ?line w)" for w
        using c Inr False by (simp add: main_def)
      show ?thesis
        unfolding a
        using export_loop_delta [of root c tables "print ?line w"]
              export_loop_delta [of root c tables "print ?line empty_world"]
        by (simp add: empty_world_def)
    qed
  qed
qed

text \<open>
  Claim C7. With the remote service answering the same way, a second run of the Exporter
  ends as the first did and leaves every file byte for byte as the first run left it; and
  the files a run writes are the same from whatever state of the disk it starts.
\<close>

theorem export_twice_same_files:
  "fst (main root Client (snd (main root Client w))) = fst (main root Client w)
   \<and> files (snd (main root Client (snd (main root Client w)))) = files (snd (main root Client w))
   \<and> files (snd (main root Client w)) = files w ++ files (snd (main root Client empty_world))"
proof -
  let ?M = "files (snd (main root Client empty_world))"
  let ?w1 = "snd (main root Client w)"
  have 1: "files ?w1 = files w ++ ?M" and r1: "fst (main root Client w) = fst (main root Client empty_world)"
    using main_delta [of root Client w] by simp_all
  have 2: "files (snd (main root Client ?w1)) = files ?w1 ++ ?M"
    and r2: "fst (main root Client ?w1) = fst (main root Client empty_world)"
    using main_delta [of root Client ?w1] by simp_all
  have "(files w ++ ?M) ++ ?M = files w ++ ?M"
    by (rule ext) (simp add: map_add_def split: option.split)
  then have "files (snd (main root Client ?w1)) = files ?w1"
    unfolding 2 unfolding 1 .
  with 1 r1 r2 show ?thesis by simp
qed

theorem export_twice_same_files_witness:
  "fst (main ''/repo'' (\<lambda>p. Inr (demo_client good_rows))
          (snd (main ''/repo'' (\<lambda>p. Inr (demo_client good_rows)) empty_world))) = Inr ()
   \<and> files (snd (main ''/repo'' (\<lambda>p. Inr (demo_client good_rows))
          (snd (main ''/repo'' (\<lambda>p. Inr (demo_client good_rows)) empty_world))))
       = files (snd (main ''/repo'' (\<lambda>p. Inr (demo_client good_rows)) empty_world))
   \<and> files (snd (main ''/repo'' (\<lambda>p. Inr (demo_client good_rows)) empty_world))
         ''/repo/exports/dbt_training_marts/products.csv'' = Some (''sku'' @ lineterminator)"
proof -
  let ?run = "main ''/repo'' (\<lambda>p. Inr (demo_client good_rows))"
  from export_twice_same_files [of "''/repo''" "\<lambda>p. Inr (demo_client good_rows)" empty_world]
  have a: "fst (?run (snd (?run empty_world))) = fst (?run empty_world)"
    and b: "files (snd (?run (snd (?run empty_world)))) = files (snd (?run empty_world))"
    by blast+
  have r: "fst (?run empty_world) = Inr ()"
    by (simp add: demo_run_good)
  have p: "files (snd (?run empty_world)) ''/repo/exports/dbt_training_marts/products.csv''
             = Some (''sku'' @ lineterminator)"
    by (simp add: demo_run_good)
  show ?thesis
    using a b r p by (simp only: simp_thms)
qed

text \<open>
  Claim C4. When the table listing is empty the run ends with \<open>SystemExit\<close> carrying the
  "No tables found" message, hence with a non-zero status, and the world is untouched: no
  directory was created and no file was created or written.
\<close>

theorem no_tables_halts_first:
  assumes "Client PROJECT_ID = Inr c"
    and "list_tables c (DatasetReference PROJECT_ID DATASET_ID_marts) = Inr []"
  shows "main root Client w =
           (Inl (SystemExit ''No tables found in saras-bigquery.dbt_training_marts''), w)
         \<and> exit_status (fst (main root Client w)) \<noteq> 0
         \<and> dirs (snd (main root Client w)) = dirs w
         \<and> files (snd (main root Client w)) = files w"
  using assms by (simp add: main_def PROJECT_ID_def DATASET_ID_marts_def)

theorem no_tables_halts_first_witness:
  "(\<lambda>p. Inr bare_client) PROJECT_ID = (Inr bare_client :: exn + client)
   \<and> list_tables bare_client (DatasetReference PROJECT_ID DATASET_ID_marts) = Inr []
   \<and> main ''/repo'' (\<lambda>p. Inr bare_client) empty_world =
           (Inl (SystemExit ''No tables found in saras-bigquery.dbt_training_marts''), empty_world)
   \<and> exit_status (fst (main ''/repo'' (\<lambda>p. Inr bare_client) empty_world)) \<noteq> 0
   \<and> dirs (snd (main ''/repo'' (\<lambda>p. Inr bare_client) empty_world)) = {}
   \<and> files (snd (main ''/repo'' (\<lambda>p. Inr bare_client) empty_world)) = Map.empty"
proof -
  have a: "(\<lambda>p. Inr bare_client) PROJECT_ID = (Inr bare_client :: exn + client)" by simp
  have b: "list_tables bare_client (DatasetReference PROJECT_ID DATASET_ID_marts) = Inr []"
    by (simp add: bare_client_def)
  from no_tables_halts_first [OF a b, of "''/repo''" empty_world] a b
  show ?thesis by (simp add: empty_world_def)
qed

text \<open>The loop over the tables stops at the first table whose export raises.\<close>

lemma export_loop_abort:
  "export_loop root c pre w = (Inr (), w1) \<Longrightarrow>
   export_table root c (reference t) w1 = (Inl e, w2) \<Longrightarrow>
   export_loop root c (pre @ t # post) w = (Inl e, w2)"
proof (induction pre arbitrary: w)
  case Nil
  then show ?case by simp
next
  case (Cons u pre)
  obtain r w' where run: "export_table root c (reference u) w = (r, w')"
    by (cases "export_table root c (reference u) w")
  show ?case
  proof (cases r)
    case (Inl e')
    with run Cons.prems(1) show ?thesis by simp
  next
    case (Inr path)
    with run Cons.prems(1) Cons.IH [OF _ Cons.prems(2)] show ?thesis by simp
  qed
qed

lemma export_loop_all_good:
  "\<forall>u \<in> set pre. \<exists>tbl it. get_table c (reference u) = Inr tbl \<and> list_rows c tbl = Inr it
                               \<and> failure_of it = None \<Longrightarrow>
   \<exists>w1. export_loop root c pre w = (Inr (), w1)"
proof (induction pre arbitrary: w)
  case Nil
  show ?case by simp
next
  case (Cons u pre)
  then obtain tbl it where
    u: "get_table c (reference u) = Inr tbl" "list_rows c tbl = Inr it" "failure_of it = None"
    by auto
  from Cons.prems have rest: "\<forall>u \<in> set pre. \<exists>tbl it. get_table c (reference u) = Inr tbl
      \<and> list_rows c tbl = Inr it \<and> failure_of it = None"
    by simp
  show ?case
    using Cons.IH [OF rest] by (simp add: export_table_rows [OF u(1,2)] u(3))
qed

lemma export_table_failure:
  assumes "get_table c r = Inl e
           \<or> (\<exists>tbl. get_table c r = Inr tbl
                  \<and> (list_rows c tbl = Inl e
                      \<or> (\<exists>it. list_rows c tbl = Inr it \<and> failure_of it = Some e)))"
  shows "fst (export_table root c r w) = Inl e"
  using assms
  by (auto simp: export_table_get_fails export_table_list_fails export_table_rows)

text \<open>
  Claim C8. Let \<open>t\<close> be the first listed table for which the metadata fetch, the
  request for the rows or the iteration over the rows raises \<open>e\<close>. Then the run ends with
  that same \<open>e\<close>, and the world at the end is the world as the failed \<open>export_table\<close>
  call on \<open>t\<close> left it: no later table was touched and nothing was cleaned up. In
  particular, if the file of \<open>t\<close> had been opened, it stays there with the header and
  the rows yielded before the failure.
\<close>

theorem fetch_failure_aborts_run:
  assumes client: "Client PROJECT_ID = Inr c"
    and listing: "list_tables c (DatasetReference PROJECT_ID DATASET_ID_marts) = Inr (pre @ t # post)"
    and before: "\<forall>u \<in> set pre. \<exists>tbl it. get_table c (reference u) = Inr tbl
                    \<and> list_rows c tbl = Inr it \<and> failure_of it = None"
    and fails: "get_table c (reference t) = Inl e
                \<or> (\<exists>tbl. get_table c (reference t) = Inr tbl
                       \<and> (list_rows c tbl = Inl e
                           \<or> (\<exists>it. list_rows c tbl = Inr it \<and> failure_of it = Some e)))"
  shows "fst (main root Client w) = Inl e
         \<and> (\<exists>w1. export_loop root c pre
                    (print (''Found '' @ str_nat (length (pre @ t # post)) @ '' tables in ''
                              @ PROJECT_ID @ ''.'' @ DATASET_ID_marts @ ''.'') w) = (Inr (), w1)
                 \<and> snd (main root Client w) = snd (export_table root c (reference t) w1))
         \<and> (\<forall>tbl it. get_table c (reference t) = Inr tbl \<longrightarrow> list_rows c tbl = Inr it \<longrightarrow>
                files (snd (main root Client w)) (output_path root tbl)
                  = Some (writerow (map PyStr (fieldnames tbl))
                          @ concat (map (\<lambda>r. writerow (map (row_get r) (fieldnames tbl))) (rows_of it))))"
proof -
  let ?w0 = "print (''Found '' @ str_nat (length (pre @ t # post)) @ '' tables in ''
                              @ PROJECT_ID @ ''.'' @ DATASET_ID_marts @ ''.'') w"
  have m: "main root Client w = export_loop root c (pre @ t # post) ?w0"
    using client listing by (simp add: main_def)
  from export_loop_all_good [OF before] obtain w1
    where w1: "export_loop root c pre ?w0 = (Inr (), w1)" by blast
  obtain w2 where w2: "export_table root c (reference t) w1 = (Inl e, w2)"
    using export_table_failure [OF fails, of root w1]
    by (cases "export_table root c (reference t) w1") simp
  have run: "main root Client w = (Inl e, w2)"
    unfolding m by (rule export_loop_abort [OF w1 w2])
  have partial: "files w2 (output_path root tbl)
                  = Some (writerow (map PyStr (fieldnames tbl))
                          @ concat (map (\<lambda>r. writerow (map (row_get r) (fieldnames tbl))) (rows_of it)))"
    if "get_table c (reference t) = Inr tbl" "list_rows c tbl = Inr it" for tbl it
  proof -
    have "w2 = snd (export_table root c (reference t) w1)" using w2 by simp
    then show ?thesis by (simp add: export_table_rows [OF that])
  qed
  show ?thesis
    using run w1 w2 partial by simp
qed

theorem fetch_failure_aborts_run_witness:
  "list_tables (demo_client broken_rows) (DatasetReference PROJECT_ID DATASET_ID_marts)
     = Inr ([TableListItem customers_ref] @ TableListItem orders_ref # [TableListItem products_ref])
   \<and> get_table (demo_client broken_rows) (reference (TableListItem orders_ref)) = Inr orders_table
   \<and> list_rows (demo_client broken_rows) orders_table = Inr broken_rows
   \<and> failure_of broken_rows = Some (ApiError ''503 Service unavailable'')
   \<and> fst (main ''/repo'' (\<lambda>p. Inr (demo_client broken_rows)) empty_world)
       = Inl (ApiError ''503 Service unavailable'')
   \<and> files (snd (main ''/repo'' (\<lambda>p. Inr (demo_client broken_rows)) empty_world))
         (output_path ''/repo'' orders_table)
       = Some (writerow (map PyStr (fieldnames orders_table))
               @ writerow (map (row_get order_row1) (fieldnames orders_table)))"
proof -
  let ?c = "demo_client broken_rows"
  let ?e = "ApiError ''503 Service unavailable''"
  have a: "(\<lambda>p. Inr ?c) PROJECT_ID = (Inr ?c :: exn + client)" by simp
  have b: "list_tables ?c (DatasetReference PROJECT_ID DATASET_ID_marts)
     = Inr ([TableListItem customers_ref] @ TableListItem orders_ref # [TableListItem products_ref])"
    by (simp add: demo_client_def)
  have c: "\<forall>u \<in> set [TableListItem customers_ref]. \<exists>tbl it.
             get_table ?c (reference u) = Inr tbl \<and> list_rows ?c tbl = Inr it \<and> failure_of it = None"
    by (simp add: demo_get_customers demo_list_customers)
  have g: "get_table ?c (reference (TableListItem orders_ref)) = Inr orders_table"
    by (simp add: demo_get_orders)
  have l: "list_rows ?c orders_table = Inr broken_rows"
    by (rule demo_list_orders)
  have f: "failure_of broken_rows = Some ?e"
    by (simp add: broken_rows_def)
  have d: "get_table ?c (reference (TableListItem orders_ref)) = Inl ?e
           \<or> (\<exists>tbl. get_table ?c (reference (TableListItem orders_ref)) = Inr tbl
                  \<and> (list_rows ?c tbl = Inl ?e
                      \<or> (\<exists>it. list_rows ?c tbl = Inr it \<and> failure_of it = Some ?e)))"
    using g l f by simp
  have r: "rows_of broken_rows = [order_row1]"
    by (simp add: broken_rows_def)
  from fetch_failure_aborts_run [OF a b c d, of "''/repo''" empty_world]
  have "fst (main ''/repo'' (\<lambda>p. Inr ?c) empty_world) = Inl ?e"
    and "files (snd (main ''/repo'' (\<lambda>p. Inr ?c) empty_world)) (output_path ''/repo'' orders_table)
          = Some (writerow (map PyStr (fieldnames orders_table))
                  @ concat (map (\<lambda>r. writerow (map (row_get r) (fieldnames orders_table)))
                                (rows_of broken_rows)))"
    using g l by blast+
  with b g l f r show ?thesis by simp
qed

section \<open>The steps of the Loader\<close>

lemmas phase_defs = ensure_dataset_def get_dataset_def create_dataset_def load_file_def
  load_table_from_file_def job_result_def send_def say_def Let_def

text \<open>The dataset step: how it ends, what it requests, what it leaves alone.\<close>

lemma fst_ensure_dataset:
  "fst (ensure_dataset s) =
     (case get_dataset_fault s of
        None \<Rightarrow> if DatasetReference PROJECT_ID DATASET_ID_raw \<in> datasets s then None
                else create_dataset_fault s
      | Some (SystemExit m) \<Rightarrow> Some (SystemExit m)
      | Some (ApiError m) \<Rightarrow>
          (case create_dataset_fault s of
             Some e \<Rightarrow> Some e
           | None \<Rightarrow> if DatasetReference PROJECT_ID DATASET_ID_raw \<in> datasets s
                     then Some (ApiError m) else None))"
  by (simp add: phase_defs split: option.split exn.split)

lemma requests_ensure_dataset:
  "requests (snd (ensure_dataset s)) =
     requests s @ GetDataset (DatasetReference PROJECT_ID DATASET_ID_raw)
       # (if \<exists>m. fst (get_dataset (DatasetReference PROJECT_ID DATASET_ID_raw) s) = Some (ApiError m)
          then [CreateDataset (DatasetReference PROJECT_ID DATASET_ID_raw) ''US'' True] else [])"
  by (simp add: phase_defs split: option.split exn.split)

lemma datasets_ensure_dataset:
  "datasets (snd (ensure_dataset s)) =
     (if fst (ensure_dataset s) = None
      then insert (DatasetReference PROJECT_ID DATASET_ID_raw) (datasets s) else datasets s)"
  by (auto simp: phase_defs split: option.split exn.split)

lemma ensure_dataset_keeps:
  "local_files (snd (ensure_dataset s)) = local_files s
   \<and> client_fault (snd (ensure_dataset s)) = client_fault s
   \<and> get_dataset_fault (snd (ensure_dataset s)) = get_dataset_fault s
   \<and> create_dataset_fault (snd (ensure_dataset s)) = create_dataset_fault s
   \<and> load_fault (snd (ensure_dataset s)) = load_fault s
   \<and> job_fault (snd (ensure_dataset s)) = job_fault s
   \<and> job_output_rows (snd (ensure_dataset s)) = job_output_rows s"
  by (simp add: phase_defs split: option.split exn.split)

lemma printed_ensure_dataset:
  "\<exists>new. printed (snd (ensure_dataset s)) = printed s @ new
         \<and> set new \<subseteq> {''Dataset '' @ DATASET_ID_raw @ '' already exists.'',
                        ''Creating dataset '' @ DATASET_ID_raw @ '' in project '' @ PROJECT_ID @ ''...'',
                        ''Dataset created.''}"
  by (simp add: phase_defs split: option.split exn.split)

text \<open>The load step.\<close>

lemma fst_load_file:
  "fst (load_file root s) =
     (case load_fault s of Some e \<Rightarrow> Some e | None \<Rightarrow> job_fault s)"
  by (simp add: phase_defs split: option.split)

lemma requests_load_file:
  "requests (snd (load_file root s)) =
     requests s @ LoadTableFromFile (FILE_PATH root) (PROJECT_ID @ ''.'' @ DATASET_ID_raw @ ''.'' @ TABLE_ID)
                    \<lparr>source_format = NEWLINE_DELIMITED_JSON, autodetect = True,
                     write_disposition = WRITE_TRUNCATE\<rparr>
       # (if load_fault s = None then [JobResult] else [])"
  by (simp add: phase_defs split: option.split)

lemma printed_load_file:
  "printed (snd (load_file root s)) =
     printed s @ (''Loading '' @ FILE_PATH root @ '' into ''
                    @ PROJECT_ID @ ''.'' @ DATASET_ID_raw @ ''.'' @ TABLE_ID @ '' ...'')
       # (if fst (load_file root s) = None
          then [''Loaded '' @ str_rows (job_output_rows s) @ '' rows into ''
                  @ PROJECT_ID @ ''.'' @ DATASET_ID_raw @ ''.'' @ TABLE_ID @ ''.'']
          else [])"
  by (simp add: phase_defs split: option.split)

lemma load_file_keeps:
  "datasets (snd (load_file root s)) = datasets s
   \<and> get_dataset_fault (snd (load_file root s)) = get_dataset_fault s
   \<and> create_dataset_fault (snd (load_file root s)) = create_dataset_fault s
   \<and> local_files (snd (load_file root s)) = local_files s
   \<and> client_fault (snd (load_file root s)) = client_fault s
   \<and> load_fault (snd (load_file root s)) = load_fault s
   \<and> job_fault (snd (load_file root s)) = job_fault s"
  by (simp add: phase_defs split: option.split)

text \<open>Logging a request changes nothing a later step reads.\<close>

lemma printed_send [simp]: "printed (send r s) = printed s"
  by (simp add: send_def)

lemma requests_send [simp]: "requests (send r s) = requests s @ [r]"
  by (simp add: send_def)

lemma send_keeps [simp]:
  "load_fault (send r s) = load_fault s" "job_fault (send r s) = job_fault s"
  "job_output_rows (send r s) = job_output_rows s" "datasets (send r s) = datasets s"
  "get_dataset_fault (send r s) = get_dataset_fault s"
  "create_dataset_fault (send r s) = create_dataset_fault s"
  "local_files (send r s) = local_files s" "client_fault (send r s) = client_fault s"
  by (simp_all add: send_def)

lemma ensure_dataset_after_send:
  "fst (ensure_dataset (send r s)) = fst (ensure_dataset s)
   \<and> fst (get_dataset d (send r s)) = fst (get_dataset d s)"
  by (simp add: fst_ensure_dataset send_def get_dataset_def split: option.split exn.split)

text \<open>The script, cut into its steps, and what a run requests, prints and keeps.\<close>

lemma loader_steps:
  assumes "FILE_PATH root \<in> local_files s" and "client_fault s = None"
  shows "loader root s =
     (let s2 = snd (ensure_dataset (send (NewClient PROJECT_ID) s))
      in case fst (ensure_dataset s) of
           Some e \<Rightarrow> (Inl e, s2)
         | None \<Rightarrow>
             (case fst (load_file root s2) of
                Some e \<Rightarrow> (Inl e, snd (load_file root s2))
              | None \<Rightarrow> (Inr (), snd (load_file root s2))))"
proof -
  let ?s1 = "send (NewClient PROJECT_ID) s"
  have e: "fst (ensure_dataset ?s1) = fst (ensure_dataset s)"
    by (simp add: ensure_dataset_after_send)
  obtain r2 s2 where E: "ensure_dataset ?s1 = (r2, s2)"
    by (cases "ensure_dataset ?s1")
  obtain r3 s3 where L: "load_file root s2 = (r3, s3)"
    by (cases "load_file root s2")
  have "loader root s =
     (let s2 = snd (ensure_dataset ?s1)
      in case fst (ensure_dataset ?s1) of
           Some e \<Rightarrow> (Inl e, s2)
         | None \<Rightarrow>
             (case fst (load_file root s2) of
                Some e \<Rightarrow> (Inl e, snd (load_file root s2))
              | None \<Rightarrow> (Inr (), snd (load_file root s2))))"
    using assms E L by (simp add: loader_def new_client_def split: option.split)
  then show ?thesis by (simp only: e)
qed

lemma issued_run:
  assumes "FILE_PATH root \<in> local_files s" and "client_fault s = None"
  shows "issued root s =
     NewClient PROJECT_ID # GetDataset (DatasetReference PROJECT_ID DATASET_ID_raw)
     # (if \<exists>m. fst (get_dataset (DatasetReference PROJECT_ID DATASET_ID_raw) s) = Some (ApiError m)
        then [CreateDataset (DatasetReference PROJECT_ID DATASET_ID_raw) ''US'' True] else [])
     @ (if fst (ensure_dataset s) = None
        then LoadTableFromFile (FILE_PATH root) (PROJECT_ID @ ''.'' @ DATASET_ID_raw @ ''.'' @ TABLE_ID)
               \<lparr>source_format = NEWLINE_DELIMITED_JSON, autodetect = True,
                write_disposition = WRITE_TRUNCATE\<rparr>
             # (if load_fault s = None then [JobResult] else [])
        else [])"
proof -
  let ?s1 = "send (NewClient PROJECT_ID) s"
  let ?s2 = "snd (ensure_dataset ?s1)"
  have snd_run: "snd (loader root s) =
      (if fst (ensure_dataset s) = None then snd (load_file root ?s2) else ?s2)"
    by (simp add: loader_steps [OF assms] Let_def split: option.split)
  have lf: "load_fault ?s2 = load_fault s"
    using ensure_dataset_keeps [of ?s1] by simp
  have r2: "requests ?s2 = requests s @ NewClient PROJECT_ID
       # GetDataset (DatasetReference PROJECT_ID DATASET_ID_raw)
       # (if \<exists>m. fst (get_dataset (DatasetReference PROJECT_ID DATASET_ID_raw) s) = Some (ApiError m)
          then [CreateDataset (DatasetReference PROJECT_ID DATASET_ID_raw) ''US'' True] else [])"
    by (simp add: requests_ensure_dataset ensure_dataset_after_send)
  show ?thesis
    unfolding issued_def snd_run
    by (simp add: requests_load_file r2 lf)
qed

lemma issued_no_file: "FILE_PATH root \<notin> local_files s \<Longrightarrow> issued root s = []"
  by (simp add: issued_def loader_def)

lemma issued_no_client:
  "FILE_PATH root \<in> local_files s \<Longrightarrow> client_fault s = Some e \<Longrightarrow>
   issued root s = [NewClient PROJECT_ID]"
  by (simp add: issued_def loader_def new_client_def)

lemma loader_ok_iff:
  "fst (loader root s) = Inr () \<longleftrightarrow>
     FILE_PATH root \<in> local_files s \<and> client_fault s = None \<and> fst (ensure_dataset s) = None
     \<and> load_fault s = None \<and> job_fault s = None"
proof (cases "FILE_PATH root \<in> local_files s \<and> client_fault s = None")
  case False
  then show ?thesis by (auto simp: loader_def new_client_def)
next
  case True
  then have f: "FILE_PATH root \<in> local_files s" and c: "client_fault s = None" by simp_all
  let ?s2 = "snd (ensure_dataset (send (NewClient PROJECT_ID) s))"
  have k: "load_fault ?s2 = load_fault s" "job_fault ?s2 = job_fault s"
    using ensure_dataset_keeps [of "send (NewClient PROJECT_ID) s"] by simp_all
  show ?thesis
    using f c by (simp add: loader_steps [OF f c] Let_def fst_load_file k split: option.split)
qed

lemma loader_keeps:
  "local_files (snd (loader root s)) = local_files s
   \<and> client_fault (snd (loader root s)) = client_fault s
   \<and> get_dataset_fault (snd (loader root s)) = get_dataset_fault s
   \<and> create_dataset_fault (snd (loader root s)) = create_dataset_fault s"
proof (cases "FILE_PATH root \<in> local_files s \<and> client_fault s = None")
  case False
  then show ?thesis by (auto simp: loader_def new_client_def)
next
  case True
  then have f: "FILE_PATH root \<in> local_files s" and c: "client_fault s = None" by simp_all
  let ?s1 = "send (NewClient PROJECT_ID) s"
  show ?thesis
    using ensure_dataset_keeps [of ?s1] load_file_keeps [of root "snd (ensure_dataset ?s1)"]
    by (simp add: loader_steps [OF f c] Let_def split: option.split)
qed

lemma datasets_loader:
  assumes "FILE_PATH root \<in> local_files s" and "client_fault s = None"
    and "fst (ensure_dataset s) = None"
  shows "datasets (snd (loader root s)) = insert (DatasetReference PROJECT_ID DATASET_ID_raw) (datasets s)"
proof -
  let ?s1 = "send (NewClient PROJECT_ID) s"
  have "datasets (snd (ensure_dataset ?s1)) = insert (DatasetReference PROJECT_ID DATASET_ID_raw) (datasets s)"
    using assms(3) by (simp add: datasets_ensure_dataset ensure_dataset_after_send)
  then show ?thesis
    using assms(3) load_file_keeps [of root "snd (ensure_dataset ?s1)"]
    by (simp add: loader_steps [OF assms(1,2)] Let_def split: option.split)
qed

lemma reported_run:
  assumes "FILE_PATH root \<in> local_files s" and "client_fault s = None"
  shows "\<exists>new. reported root s =
           new @ (if fst (ensure_dataset s) = None
                  then (''Loading '' @ FILE_PATH root @ '' into ''
                          @ PROJECT_ID @ ''.'' @ DATASET_ID_raw @ ''.'' @ TABLE_ID @ '' ...'')
                       # (if load_fault s = None \<and> job_fault s = None
                          then [''Loaded '' @ str_rows (job_output_rows s) @ '' rows into ''
                                  @ PROJECT_ID @ ''.'' @ DATASET_ID_raw @ ''.'' @ TABLE_ID @ ''.'']
                          else [])
                  else [])
         \<and> set new \<subseteq> {''Dataset '' @ DATASET_ID_raw @ '' already exists.'',
                        ''Creating dataset '' @ DATASET_ID_raw @ '' in project '' @ PROJECT_ID @ ''...'',
                        ''Dataset created.''}"
proof -
  let ?s1 = "send (NewClient PROJECT_ID) s"
  let ?s2 = "snd (ensure_dataset ?s1)"
  from printed_ensure_dataset [of ?s1] obtain new where
    new: "printed ?s2 = printed s @ new"
      "set new \<subseteq> {''Dataset '' @ DATASET_ID_raw @ '' already exists.'',
                  ''Creating dataset '' @ DATASET_ID_raw @ '' in project '' @ PROJECT_ID @ ''...'',
                  ''Dataset created.''}"
    by auto
  have snd_run: "snd (loader root s) =
      (if fst (ensure_dataset s) = None then snd (load_file root ?s2) else ?s2)"
    by (simp add: loader_steps [OF assms] Let_def split: option.split)
  have k: "load_fault ?s2 = load_fault s" "job_fault ?s2 = job_fault s"
    "job_output_rows ?s2 = job_output_rows s"
    using ensure_dataset_keeps [of ?s1] by simp_all
  have "reported root s =
           new @ (if fst (ensure_dataset s) = None
                  then (''Loading '' @ FILE_PATH root @ '' into ''
                          @ PROJECT_ID @ ''.'' @ DATASET_ID_raw @ ''.'' @ TABLE_ID @ '' ...'')
                       # (if load_fault s = None \<and> job_fault s = None
                          then [''Loaded '' @ str_rows (job_output_rows s) @ '' rows into ''
                                  @ PROJECT_ID @ ''.'' @ DATASET_ID_raw @ ''.'' @ TABLE_ID @ ''.'']
                          else [])
                  else [])"
    unfolding reported_def snd_run
    by (simp add: printed_load_file fst_load_file new(1) k split: option.split)
  with new(2) show ?thesis by blast
qed

lemma reported_no_run:
  "FILE_PATH root \<notin> local_files s \<or> client_fault s \<noteq> None \<Longrightarrow> reported root s = []"
  by (auto simp: reported_def loader_def new_client_def)

lemmas service_defs = fresh_service_def no_file_service_def outage_service_def

lemma fresh_file: "FILE_PATH ''/repo'' \<in> local_files fresh_service"
  by (simp add: fresh_service_def)

lemma outage_file: "FILE_PATH ''/repo'' \<in> local_files outage_service"
  by (simp add: outage_service_def fresh_service_def)

text \<open>A first run on a fresh service, and a run against the service that cannot answer.\<close>

lemma demo_load_fresh:
  "loader ''/repo'' fresh_service =
     (Inr (),
      fresh_service
        \<lparr>datasets := {DatasetReference ''saras-bigquery'' ''raw_shopify''},
         requests :=
           [NewClient ''saras-bigquery'',
            GetDataset (DatasetReference ''saras-bigquery'' ''raw_shopify''),
            CreateDataset (DatasetReference ''saras-bigquery'' ''raw_shopify'') ''US'' True,
            LoadTableFromFile ''/repo/RAW_DATASETS/bquxjob_12dd921d_19c2829b22b_yourgpt.jsonl''
              ''saras-bigquery.raw_shopify.orders''
              \<lparr>source_format = NEWLINE_DELIMITED_JSON, autodetect = True,
               write_disposition = WRITE_TRUNCATE\<rparr>,
            JobResult],
         printed :=
           [''Creating dataset raw_shopify in project saras-bigquery...'',
            ''Dataset created.'',
            ''Loading /repo/RAW_DATASETS/bquxjob_12dd921d_19c2829b22b_yourgpt.jsonl into saras-bigquery.raw_shopify.orders ...'',
            ''Loaded 42 rows into saras-bigquery.raw_shopify.orders.'']\<rparr>)"
  by (simp add: loader_def new_client_def phase_defs fresh_service_def FILE_PATH_def
      PROJECT_ID_def DATASET_ID_raw_def TABLE_ID_def digit_char_def)

lemma demo_load_outage:
  "loader ''/repo'' outage_service =
     (Inl (ApiError ''503 Service unavailable''),
      outage_service
        \<lparr>requests :=
           [NewClient ''saras-bigquery'',
            GetDataset (DatasetReference ''saras-bigquery'' ''raw_shopify''),
            CreateDataset (DatasetReference ''saras-bigquery'' ''raw_shopify'') ''US'' True],
         printed := [''Creating dataset raw_shopify in project saras-bigquery...'']\<rparr>)"
  by (simp add: loader_def new_client_def phase_defs outage_service_def fresh_service_def
      FILE_PATH_def PROJECT_ID_def DATASET_ID_raw_def TABLE_ID_def)

section \<open>What a run of the Loader does\<close>

text \<open>
  Claim C5. When the source file is not there, the run ends with \<open>SystemExit\<close> naming
  the file, hence with a non-zero status, and has made no call into the client library at
  all: no client was constructed, no dataset fetched or created, no load job submitted.
\<close>

theorem missing_file_halts_before_remote:
  assumes "FILE_PATH root \<notin> local_files s"
  shows "loader root s = (Inl (SystemExit (''File not found: '' @ FILE_PATH root)), s)
         \<and> exit_status (fst (loader root s)) \<noteq> 0
         \<and> issued root s = []"
  using assms by (simp add: loader_def issued_def)

theorem missing_file_halts_before_remote_witness:
  "FILE_PATH ''/repo'' \<notin> local_files no_file_service
   \<and> loader ''/repo'' no_file_service =
        (Inl (SystemExit ''File not found: /repo/RAW_DATASETS/bquxjob_12dd921d_19c2829b22b_yourgpt.jsonl''),
         no_file_service)
   \<and> exit_status (fst (loader ''/repo'' no_file_service)) \<noteq> 0
   \<and> issued ''/repo'' no_file_service = []"
proof -
  have a: "FILE_PATH ''/repo'' \<notin> local_files no_file_service"
    by (simp add: no_file_service_def)
  from missing_file_halts_before_remote [OF a] a show ?thesis
    by (simp add: FILE_PATH_def)
qed

text \<open>
  Claim C3, as the specification states it, fails: the script asks for the dataset to be
  created whenever fetching its metadata raises, whatever the reason. Here the dataset
  exists before the run, the fetch fails because the service is unavailable, and the
  script requests the creation nonetheless.
\<close>

theorem existing_dataset_created_again:
  "DatasetReference PROJECT_ID DATASET_ID_raw \<in> datasets outage_service
   \<and> CreateDataset (DatasetReference PROJECT_ID DATASET_ID_raw) ''US'' True
        \<in> set (issued ''/repo'' outage_service)"
proof -
  have c: "client_fault outage_service = None"
    by (simp add: service_defs)
  show ?thesis
    by (simp add: issued_run [OF outage_file c]) (simp add: service_defs get_dataset_def)
qed

text \<open>
  Claim C3, amended. With the source file present and the client constructed, the Loader
  requests the creation of the dataset (location US, \<open>exists_ok\<close>) if and only if
  fetching its metadata raises a library exception. If a fetch fails only for a dataset
  that is absent, that is if and only if the dataset does not exist before the run; and
  then, after a run that got past the dataset step, the dataset exists, so that the
  dataset step of a second run cannot fail and requests no creation.
\<close>

theorem dataset_created_iff_fetch_fails:
  assumes src: "FILE_PATH root \<in> local_files s" and client: "client_fault s = None"
  shows "(CreateDataset (DatasetReference PROJECT_ID DATASET_ID_raw) ''US'' True \<in> set (issued root s)
            \<longleftrightarrow> (\<exists>m. fst (get_dataset (DatasetReference PROJECT_ID DATASET_ID_raw) s) = Some (ApiError m)))
         \<and> (get_dataset_fault s = None \<longrightarrow>
              (CreateDataset (DatasetReference PROJECT_ID DATASET_ID_raw) ''US'' True \<in> set (issued root s)
                 \<longleftrightarrow> DatasetReference PROJECT_ID DATASET_ID_raw \<notin> datasets s))
         \<and> (get_dataset_fault s = None \<longrightarrow> fst (ensure_dataset s) = None \<longrightarrow>
              DatasetReference PROJECT_ID DATASET_ID_raw \<in> datasets (snd (loader root s))
              \<and> fst (ensure_dataset (snd (loader root s))) = None
              \<and> CreateDataset (DatasetReference PROJECT_ID DATASET_ID_raw) ''US'' True
                   \<notin> set (issued root (snd (loader root s))))"
proof -
  let ?d = "DatasetReference PROJECT_ID DATASET_ID_raw"
  let ?create = "CreateDataset ?d ''US'' True"
  have iff: "?create \<in> set (issued root s) \<longleftrightarrow> (\<exists>m. fst (get_dataset ?d s) = Some (ApiError m))"
    by (simp add: issued_run [OF src client])
  have absent: "?create \<in> set (issued root s) \<longleftrightarrow> ?d \<notin> datasets s" if "get_dataset_fault s = None"
    using that by (simp add: iff get_dataset_def)
  have twice: "?d \<in> datasets (snd (loader root s))
              \<and> fst (ensure_dataset (snd (loader root s))) = None
              \<and> ?create \<notin> set (issued root (snd (loader root s)))"
    if g: "get_dataset_fault s = None" and e: "fst (ensure_dataset s) = None"
  proof -
    let ?s' = "snd (loader root s)"
    have d: "?d \<in> datasets ?s'"
      by (simp add: datasets_loader [OF src client e])
    have k: "FILE_PATH root \<in> local_files ?s'" "client_fault ?s' = None" "get_dataset_fault ?s' = None"
      using loader_keeps [of root s] src client g by simp_all
    have fetch: "fst (get_dataset ?d ?s') = None"
      using d k(3) by (simp add: get_dataset_def)
    have "fst (ensure_dataset ?s') = None"
      using d k(3) by (simp add: fst_ensure_dataset)
    moreover have "?create \<notin> set (issued root ?s')"
      by (simp add: issued_run [OF k(1,2)] fetch)
    ultimately show ?thesis using d by simp
  qed
  show ?thesis using iff absent twice by blast
qed

theorem dataset_created_iff_fetch_fails_witness:
  "FILE_PATH ''/repo'' \<in> local_files fresh_service \<and> client_fault fresh_service = None
   \<and> get_dataset_fault fresh_service = None \<and> fst (ensure_dataset fresh_service) = None
   \<and> DatasetReference PROJECT_ID DATASET_ID_raw \<notin> datasets fresh_service
   \<and> CreateDataset (DatasetReference PROJECT_ID DATASET_ID_raw) ''US'' True
        \<in> set (issued ''/repo'' fresh_service)
   \<and> DatasetReference PROJECT_ID DATASET_ID_raw \<in> datasets (snd (loader ''/repo'' fresh_service))
   \<and> fst (ensure_dataset (snd (loader ''/repo'' fresh_service))) = None
   \<and> CreateDataset (DatasetReference PROJECT_ID DATASET_ID_raw) ''US'' True
        \<notin> set (issued ''/repo'' (snd (loader ''/repo'' fresh_service)))"
proof -
  have c: "client_fault fresh_service = None" and g: "get_dataset_fault fresh_service = None"
    and a: "DatasetReference PROJECT_ID DATASET_ID_raw \<notin> datasets fresh_service"
    by (simp_all add: fresh_service_def)
  have e: "fst (ensure_dataset fresh_service) = None"
    by (simp add: fst_ensure_dataset fresh_service_def)
  from dataset_created_iff_fetch_fails [OF fresh_file c] g e a fresh_file c
  show ?thesis by blast
qed

text \<open>
  Claim C6. No run submits more than one load job. A run that ends normally has
  submitted exactly one, for the fixed source file and the fixed destination table, with
  newline-delimited JSON as the source format, schema detection on and write-truncate; the
  wait for the job's result is the last request, and the line with the number of rows is
  the last line printed. A run that does not end normally, for instance because the job's
  result raises, does not print that line.
\<close>

theorem one_load_job_then_report:
  "length (filter is_load (issued root s)) \<le> 1
   \<and> (fst (loader root s) = Inr () \<longrightarrow>
        (\<exists>pre. issued root s =
                 pre @ [LoadTableFromFile (FILE_PATH root) ''saras-bigquery.raw_shopify.orders''
                          \<lparr>source_format = NEWLINE_DELIMITED_JSON, autodetect = True,
                           write_disposition = WRITE_TRUNCATE\<rparr>,
                        JobResult]
               \<and> filter is_load pre = [])
        \<and> reported root s \<noteq> []
        \<and> last (reported root s) =
            ''Loaded '' @ str_rows (job_output_rows s) @ '' rows into saras-bigquery.raw_shopify.orders.'')
   \<and> (fst (loader root s) \<noteq> Inr () \<longrightarrow>
        ''Loaded '' @ str_rows (job_output_rows s) @ '' rows into saras-bigquery.raw_shopify.orders.''
          \<notin> set (reported root s))"
proof -
  let ?load = "LoadTableFromFile (FILE_PATH root) ''saras-bigquery.raw_shopify.orders''
                 \<lparr>source_format = NEWLINE_DELIMITED_JSON, autodetect = True,
                  write_disposition = WRITE_TRUNCATE\<rparr>"
  let ?report = "''Loaded '' @ str_rows (job_output_rows s)
                   @ '' rows into saras-bigquery.raw_shopify.orders.''"
  have at_most: "length (filter is_load (issued root s)) \<le> 1"
  proof (cases "FILE_PATH root \<in> local_files s")
    case False
    then show ?thesis by (simp add: issued_no_file)
  next
    case f: True
    show ?thesis
    proof (cases "client_fault s")
      case None
      show ?thesis by (simp add: issued_run [OF f None])
    next
      case (Some e)
      show ?thesis by (simp add: issued_no_client [OF f Some])
    qed
  qed
  have ok: "(\<exists>pre. issued root s = pre @ [?load, JobResult] \<and> filter is_load pre = [])
            \<and> reported root s \<noteq> [] \<and> last (reported root s) = ?report"
    if "fst (loader root s) = Inr ()"
  proof -
    from that have f: "FILE_PATH root \<in> local_files s" and c: "client_fault s = None"
      and e: "fst (ensure_dataset s) = None" and l: "load_fault s = None" and j: "job_fault s = None"
      by (simp_all add: loader_ok_iff)
    let ?pre = "NewClient PROJECT_ID # GetDataset (DatasetReference PROJECT_ID DATASET_ID_raw)
       # (if \<exists>m. fst (get_dataset (DatasetReference PROJECT_ID DATASET_ID_raw) s) = Some (ApiError m)
          then [CreateDataset (DatasetReference PROJECT_ID DATASET_ID_raw) ''US'' True] else [])"
    have "issued root s = ?pre @ [?load, JobResult]"
      by (simp add: issued_run [OF f c] e l PROJECT_ID_def DATASET_ID_raw_def TABLE_ID_def)
    moreover have "filter is_load ?pre = []" by simp
    ultimately have reqs: "\<exists>pre. issued root s = pre @ [?load, JobResult] \<and> filter is_load pre = []"
      by blast
    from reported_run [OF f c] obtain new where
      "reported root s = new @ [''Loading '' @ FILE_PATH root @ '' into ''
                          @ PROJECT_ID @ ''.'' @ DATASET_ID_raw @ ''.'' @ TABLE_ID @ '' ...'',
                        ''Loaded '' @ str_rows (job_output_rows s) @ '' rows into ''
                                  @ PROJECT_ID @ ''.'' @ DATASET_ID_raw @ ''.'' @ TABLE_ID @ ''.'']"
      using e l j by auto
    then have "reported root s \<noteq> [] \<and> last (reported root s) = ?report"
      by (simp add: PROJECT_ID_def DATASET_ID_raw_def TABLE_ID_def)
    with reqs show ?thesis by simp
  qed
  have failed: "?report \<notin> set (reported root s)" if "fst (loader root s) \<noteq> Inr ()"
  proof (cases "FILE_PATH root \<in> local_files s \<and> client_fault s = None")
    case False
    then show ?thesis by (simp add: reported_no_run)
  next
    case True
    then have f: "FILE_PATH root \<in> local_files s" and c: "client_fault s = None" by simp_all
    from that have bad: "fst (ensure_dataset s) \<noteq> None \<or> load_fault s \<noteq> None \<or> job_fault s \<noteq> None"
      using f c by (simp add: loader_ok_iff)
    from reported_run [OF f c] obtain new where
      r: "reported root s =
           new @ (if fst (ensure_dataset s) = None
                  then (''Loading '' @ FILE_PATH root @ '' into ''
                          @ PROJECT_ID @ ''.'' @ DATASET_ID_raw @ ''.'' @ TABLE_ID @ '' ...'')
                       # (if load_fault s = None \<and> job_fault s = None
                          then [''Loaded '' @ str_rows (job_output_rows s) @ '' rows into ''
                                  @ PROJECT_ID @ ''.'' @ DATASET_ID_raw @ ''.'' @ TABLE_ID @ ''.'']
                          else [])
                  else [])"
      and n: "set new \<subseteq> {''Dataset '' @ DATASET_ID_raw @ '' already exists.'',
                        ''Creating dataset '' @ DATASET_ID_raw @ '' in project '' @ PROJECT_ID @ ''...'',
                        ''Dataset created.''}"
      by blast
    have "?report \<notin> set new"
      using n by auto
    moreover have "?report \<noteq> ''Loading '' @ FILE_PATH root @ '' into ''
                          @ PROJECT_ID @ ''.'' @ DATASET_ID_raw @ ''.'' @ TABLE_ID @ '' ...''"
      by simp
    ultimately show ?thesis
      using bad by (auto simp: r)
  qed
  show ?thesis using at_most ok failed by blast
qed

theorem one_load_job_then_report_witness:
  "fst (loader ''/repo'' fresh_service) = Inr ()
   \<and> length (filter is_load (issued ''/repo'' fresh_service)) \<le> 1
   \<and> (\<exists>pre. issued ''/repo'' fresh_service =
                 pre @ [LoadTableFromFile (FILE_PATH ''/repo'') ''saras-bigquery.raw_shopify.orders''
                          \<lparr>source_format = NEWLINE_DELIMITED_JSON, autodetect = True,
                           write_disposition = WRITE_TRUNCATE\<rparr>,
                        JobResult]
               \<and> filter is_load pre = [])
   \<and> last (reported ''/repo'' fresh_service)
        = ''Loaded 42 rows into saras-bigquery.raw_shopify.orders.''
   \<and> fst (loader ''/repo'' bad_job_service) \<noteq> Inr ()
   \<and> ''Loaded 42 rows into saras-bigquery.raw_shopify.orders.''
        \<notin> set (reported ''/repo'' bad_job_service)"
proof -
  have ok: "fst (loader ''/repo'' fresh_service) = Inr ()"
    by (simp add: loader_ok_iff fst_ensure_dataset fresh_service_def)
  have bad: "fst (loader ''/repo'' bad_job_service) \<noteq> Inr ()"
    by (simp add: loader_ok_iff bad_job_service_def fresh_service_def)
  have rows: "str_rows (job_output_rows fresh_service) = ''42''"
    "str_rows (job_output_rows bad_job_service) = ''42''"
    by (simp_all add: fresh_service_def bad_job_service_def digit_char_def)
  from one_load_job_then_report [of "''/repo''" fresh_service]
       one_load_job_then_report [of "''/repo''" bad_job_service] ok bad
  show ?thesis
    unfolding rows by simp
qed

end
